theory Spec2Isabelle
  imports Complex_Main
begin

section \<open>The voice screen of the inventory client (frontend/app/voice.tsx)\<close>

text \<open>
  The screen is a React function component. Its state variables (\<open>useState\<close>) become a
  record; every call the component makes on the platform (expo-av, fetch, Alert, console)
  is appended to a trace of events, and the answer the platform gives to each asynchronous
  call is a parameter of the handler that makes the call. A handler reads the state
  variables of the render that created it and writes through the setters, so a handler is
  a function from the state it was created in to the state after its setters have run.
\<close>

subsection \<open>JavaScript values of a parsed JSON body\<close>

text \<open>
  Numbers are the reals (JSON yields finite numbers only, and \<open>-0\<close> is \<open>0\<close>);
  strings are byte lists, a character outside ASCII being its UTF-8 bytes. An object is
  the list of its own properties. \<open>JUndefined\<close> is what reading an absent property gives.
\<close>

datatype jsval =
    JUndefined
  | JNull
  | JBool bool
  | JNum real
  | JStr string
  | JArr "jsval list"
  | JObj "(string \<times> jsval) list"

text \<open>ToBoolean: what \<open>if (v)\<close>, \<open>v ? a : b\<close>, \<open>v && w\<close> and \<open>v || w\<close> test.\<close>

fun truthy :: "jsval \<Rightarrow> bool" where
  "truthy JUndefined = False"
| "truthy JNull = False"
| "truthy (JBool b) = b"
| "truthy (JNum r) = (r \<noteq> 0)"
| "truthy (JStr s) = (s \<noteq> [])"
| "truthy (JArr vs) = True"
| "truthy (JObj kvs) = True"

text \<open>
  \<open>data.k\<close> for the property names the screen reads (transcription, response, intent,
  item, qty, unit, error): a TypeError (\<open>None\<close>) on null and undefined, the own property
  of an object, and undefined on everything else, no prototype having a property of one
  of these names.
\<close>

definition own_prop :: "(string \<times> jsval) list \<Rightarrow> string \<Rightarrow> jsval" where
  "own_prop kvs k = (case map_of kvs k of Some v \<Rightarrow> v | None \<Rightarrow> JUndefined)"

fun js_prop :: "jsval \<Rightarrow> string \<Rightarrow> jsval option" where
  "js_prop JUndefined k = None"
| "js_prop JNull k = None"
| "js_prop (JObj kvs) k = Some (own_prop kvs k)"
| "js_prop (JBool b) k = Some JUndefined"
| "js_prop (JNum r) k = Some JUndefined"
| "js_prop (JStr s) k = Some JUndefined"
| "js_prop (JArr vs) k = Some JUndefined"

definition js_or :: "jsval \<Rightarrow> jsval \<Rightarrow> jsval" where
  "js_or a b = (if truthy a then a else b)"

text \<open>
  ToString, as a template literal and \<open>+\<close> with a string apply it. On a string it is the
  identity. On any other value it is the JavaScript runtime's conversion, which is a
  parameter \<open>conv\<close> here (\<open>None\<close> when the conversion throws).
\<close>

definition js_toString :: "(jsval \<Rightarrow> string option) \<Rightarrow> jsval \<Rightarrow> string option" where
  "js_toString conv v = (case v of JStr s \<Rightarrow> Some s | _ \<Rightarrow> conv v)"

subsection \<open>String constants of the screen\<close>

definition cross_mark :: string where
  \<comment> \<open>U+274C, in UTF-8\<close>
  "cross_mark = [CHR 0xE2, CHR 0x9D, CHR 0x8C]"

definition em_dash :: string where
  \<comment> \<open>U+2014, in UTF-8\<close>
  "em_dash = [CHR 0xE2, CHR 0x80, CHR 0x94]"

definition dquote :: string where
  "dquote = [CHR 0x22]"

subsection \<open>State, platform calls and their trace\<close>

type_synonym handle = nat

record decision_rec =
  intent :: jsval
  item :: jsval
  qty :: jsval
  unit :: jsval

record voice_state =
  recording :: "handle option"
  isRecording :: bool
  isProcessing :: bool
  aiResponse :: jsval
  transcription :: string
  decision :: "decision_rec option"

datatype permission_status = Granted | Denied | Undetermined

text \<open>
  One event per call on the platform, with the call's outcome: \<open>StopAndUnload h ok\<close> is
  \<open>stopAndUnloadAsync()\<close> on recording \<open>h\<close> (resolved or rejected), \<open>CreateRecording r\<close>
  is \<open>Audio.Recording.createAsync\<close> (\<open>None\<close>: rejected), \<open>Fetch uri\<close> is the POST of the
  file at \<open>uri\<close> to \<open>/process-voice\<close>.
\<close>

datatype event =
    RequestPermissions
  | AlertShown string string
  | StopAndUnload handle bool
  | SetAudioMode bool
  | CreateRecording "handle option"
  | Fetch string
  | ConsoleLog string
  | ConsoleError string

type_synonym trace = "event list"

text \<open>
  The recordings that are open after a trace: created and not yet stopped. A rejected
  stop call is counted as leaving the recording open.
\<close>

fun apply_event :: "handle set \<Rightarrow> event \<Rightarrow> handle set" where
  "apply_event H (CreateRecording (Some h)) = insert h H"
| "apply_event H (StopAndUnload h True) = H - {h}"
| "apply_event H e = H"

definition open_handles :: "trace \<Rightarrow> handle set" where
  "open_handles w = foldl apply_event {} w"

text \<open>What \<open>fetch\<close> followed by \<open>response.json()\<close> gives: no response at all, or a
  response with its \<open>ok\<close> flag and its body (\<open>None\<close> when the body is not JSON).\<close>

datatype fetch_outcome = NetworkFailure | Response bool "jsval option"

text \<open>A block that ran to its end, or threw, with the state its setters had reached.\<close>

datatype completion = Normal voice_state | Thrown voice_state

subsection \<open>Mount and unmount\<close>

definition initial_state :: voice_state where
  "initial_state =
     \<lparr> recording = None, isRecording = False, isProcessing = False,
       aiResponse = JStr ''Hold the Button...'',
       transcription = ''Ask about stock or sales'',
       decision = None \<rparr>"

definition permission_notice :: event where
  "permission_notice = AlertShown ''Permission missing'' ''Please allow microphone access.''"

definition mount :: "permission_status \<Rightarrow> voice_state \<times> trace" where
  "mount status =
     (initial_state,
      RequestPermissions # (if status \<noteq> Granted then [permission_notice] else []))"

text \<open>
  The cleanup function \<open>() => { if (recording) recording.stopAndUnloadAsync(); }\<close>, as a
  function of the \<open>recording\<close> binding it closes over.
\<close>

definition unmount_cleanup :: "handle option \<Rightarrow> bool \<Rightarrow> trace \<Rightarrow> trace" where
  "unmount_cleanup rec_binding stop_ok w =
     (case rec_binding of None \<Rightarrow> w | Some h \<Rightarrow> w @ [StopAndUnload h stop_ok])"

text \<open>
  The effect has the dependency list \<open>[]\<close>: React runs it once, after the first render,
  and keeps the cleanup function that this one run returned until unmount. The
  \<open>recording\<close> this cleanup closes over is therefore the first render's binding, the
  initial value of \<open>useState(null)\<close>, whatever \<open>setRecording\<close> has stored since.
\<close>

definition forceTeardown :: "bool \<Rightarrow> voice_state \<times> trace \<Rightarrow> voice_state \<times> trace" where
  "forceTeardown stop_ok sw =
     (fst sw, unmount_cleanup (recording initial_state) stop_ok (snd sw))"

text \<open>The headline text of the screen: \<open>{isProcessing ? "Thinking..." : aiResponse}\<close>.\<close>

definition display_text :: "voice_state \<Rightarrow> jsval" where
  "display_text s = (if isProcessing s then JStr ''Thinking...'' else aiResponse s)"

subsection \<open>cleanupAudio and startRecording\<close>

definition set_audio_mode :: "bool \<Rightarrow> voice_state \<times> trace \<Rightarrow> voice_state \<times> trace" where
  "set_audio_mode mode_ok sw =
     (if mode_ok then (fst sw, snd sw @ [SetAudioMode True])
      else (fst sw, snd sw @ [SetAudioMode False, ConsoleLog ''Cleanup warning:'']))"

definition cleanupAudio :: "bool \<Rightarrow> bool \<Rightarrow> voice_state \<times> trace \<Rightarrow> voice_state \<times> trace" where
  "cleanupAudio stop_ok mode_ok sw =
     (case recording (fst sw) of
        Some h \<Rightarrow>
          if stop_ok
          then set_audio_mode mode_ok
                 ((fst sw)\<lparr>recording := None\<rparr>, snd sw @ [StopAndUnload h True])
          else (fst sw, snd sw @ [StopAndUnload h False, ConsoleLog ''Cleanup warning:''])
      | None \<Rightarrow> set_audio_mode mode_ok sw)"

definition startRecording ::
  "bool \<Rightarrow> bool \<Rightarrow> handle option \<Rightarrow> voice_state \<times> trace \<Rightarrow> voice_state \<times> trace" where
  "startRecording stop_ok mode_ok created sw =
     (if isProcessing (fst sw) then sw
      else
        let sw1 = cleanupAudio stop_ok mode_ok sw;
            s2 = (fst sw1)\<lparr>isRecording := True, aiResponse := JStr ''Listening...'',
                           decision := None\<rparr>
        in case created of
             Some h \<Rightarrow> (s2\<lparr>recording := Some h\<rparr>, snd sw1 @ [CreateRecording (Some h)])
           | None \<Rightarrow>
               (s2\<lparr>isRecording := False,
                   aiResponse := JStr (cross_mark @ '' Mic Error. Try again.'')\<rparr>,
                snd sw1 @ [CreateRecording None, ConsoleError ''Failed to start recording'']))"

subsection \<open>uploadAudio\<close>

text \<open>The argument of \<open>setTranscription\<close>:
  \<open>data.transcription ? `"${data.transcription}"` : "\<emdash>"\<close>.\<close>

definition transcription_text :: "(jsval \<Rightarrow> string option) \<Rightarrow> jsval \<Rightarrow> string option" where
  "transcription_text conv data =
     (case js_prop data ''transcription'' of
        None \<Rightarrow> None
      | Some t \<Rightarrow>
          if truthy t then map_option (\<lambda>x. dquote @ x @ dquote) (js_toString conv t)
          else Some em_dash)"

text \<open>The test \<open>data.intent && data.item && data.qty && data.unit\<close> and the object built
  under it: \<open>Some None\<close> when the test is falsy, \<open>None\<close> when a property read throws.\<close>

definition decision_of :: "jsval \<Rightarrow> decision_rec option option" where
  "decision_of data =
     (case js_prop data ''intent'' of None \<Rightarrow> None | Some i \<Rightarrow>
      if \<not> truthy i then Some None else
      (case js_prop data ''item'' of None \<Rightarrow> None | Some it \<Rightarrow>
       if \<not> truthy it then Some None else
       (case js_prop data ''qty'' of None \<Rightarrow> None | Some q \<Rightarrow>
        if \<not> truthy q then Some None else
        (case js_prop data ''unit'' of None \<Rightarrow> None | Some u \<Rightarrow>
         if \<not> truthy u then Some None
         else Some (Some \<lparr> intent = i, item = it, qty = q, unit = u \<rparr>)))))"

text \<open>The branch \<open>if (response.ok) { ... }\<close>.\<close>

definition on_ok :: "(jsval \<Rightarrow> string option) \<Rightarrow> jsval \<Rightarrow> voice_state \<Rightarrow> completion" where
  "on_ok conv data s =
     (case transcription_text conv data of
        None \<Rightarrow> Thrown s
      | Some tr \<Rightarrow>
          let s1 = s\<lparr>transcription := tr\<rparr> in
          (case js_prop data ''response'' of
             None \<Rightarrow> Thrown s1
           | Some r \<Rightarrow>
               let s2 = s1\<lparr>aiResponse := js_or r (JStr ''No response'')\<rparr> in
               (case decision_of data of
                  None \<Rightarrow> Thrown s2
                | Some None \<Rightarrow> Normal s2
                | Some (Some d) \<Rightarrow> Normal (s2\<lparr>decision := Some d\<rparr>))))"

text \<open>The branch \<open>else { setAiResponse("\<dots> Error: " + (data.error || "Unknown error")) }\<close>.\<close>

definition on_not_ok :: "(jsval \<Rightarrow> string option) \<Rightarrow> jsval \<Rightarrow> voice_state \<Rightarrow> completion" where
  "on_not_ok conv data s =
     (case js_prop data ''error'' of
        None \<Rightarrow> Thrown s
      | Some e \<Rightarrow>
          (case js_toString conv (js_or e (JStr ''Unknown error'')) of
             None \<Rightarrow> Thrown s
           | Some msg \<Rightarrow> Normal (s\<lparr>aiResponse := JStr (cross_mark @ '' Error: '' @ msg)\<rparr>)))"

text \<open>
  uploadAudio up to its suspension at \<open>await fetch(...)\<close>: the three setters and the
  request. The state it returns is the one an upload is pending in.
\<close>

definition upload_begin :: "string \<Rightarrow> voice_state \<times> trace \<Rightarrow> voice_state \<times> trace" where
  "upload_begin u sw =
     ((fst sw)\<lparr>isProcessing := True, aiResponse := JStr ''Processing...'', decision := None\<rparr>,
      snd sw @ [Fetch u])"

text \<open>The rest of the \<open>try\<close> block, from the answer of \<open>fetch\<close> on.\<close>

definition upload_try ::
  "(jsval \<Rightarrow> string option) \<Rightarrow> fetch_outcome \<Rightarrow> voice_state \<Rightarrow> completion" where
  "upload_try conv out s =
     (case out of
        NetworkFailure \<Rightarrow> Thrown s
      | Response ok None \<Rightarrow> Thrown s
      | Response ok (Some data) \<Rightarrow> if ok then on_ok conv data s else on_not_ok conv data s)"

text \<open>\<open>catch\<close>: the state and the console output it leaves.\<close>

definition upload_catch :: "completion \<Rightarrow> voice_state \<times> event list" where
  "upload_catch c =
     (case c of
        Normal s \<Rightarrow> (s, [])
      | Thrown s \<Rightarrow>
          (s\<lparr>aiResponse := JStr (cross_mark @ '' Could not connect to server.'')\<rparr>,
           [ConsoleError ''Upload failed:'']))"

text \<open>uploadAudio from the answer of \<open>fetch\<close> to the end of \<open>finally\<close>.\<close>

definition upload_finish ::
  "(jsval \<Rightarrow> string option) \<Rightarrow> fetch_outcome \<Rightarrow> voice_state \<times> trace \<Rightarrow> voice_state \<times> trace" where
  "upload_finish conv out sw =
     (let r = upload_catch (upload_try conv out (fst sw))
      in ((fst r)\<lparr>isProcessing := False\<rparr>, snd sw @ snd r))"

text \<open>The URI is \<open>None\<close> for null and undefined; \<open>!uri\<close> holds of these and of the empty
  string.\<close>

definition uploadAudio ::
  "(jsval \<Rightarrow> string option) \<Rightarrow> fetch_outcome \<Rightarrow> string option \<Rightarrow>
   voice_state \<times> trace \<Rightarrow> voice_state \<times> trace" where
  "uploadAudio conv out uri sw =
     (case uri of
        None \<Rightarrow> sw
      | Some u \<Rightarrow> if u = [] then sw else upload_finish conv out (upload_begin u sw))"

subsection \<open>stopRecording\<close>

text \<open>\<open>stop_ok\<close> is the outcome of \<open>stopAndUnloadAsync\<close>, \<open>uri\<close> what \<open>getURI()\<close>
  returns, \<open>out\<close> the answer to the upload's request.\<close>

definition stopRecording ::
  "(jsval \<Rightarrow> string option) \<Rightarrow> bool \<Rightarrow> string option \<Rightarrow> fetch_outcome \<Rightarrow>
   voice_state \<times> trace \<Rightarrow> voice_state \<times> trace" where
  "stopRecording conv stop_ok uri out sw =
     (case recording (fst sw) of
        None \<Rightarrow> sw
      | Some h \<Rightarrow>
          let s1 = (fst sw)\<lparr>isRecording := False\<rparr> in
          if stop_ok
          then uploadAudio conv out uri (s1\<lparr>recording := None\<rparr>, snd sw @ [StopAndUnload h True])
          else (s1\<lparr>recording := None\<rparr>,
                snd sw @ [StopAndUnload h False, ConsoleError ''Stop error:'']))"

subsection \<open>The uploads a trace holds\<close>

fun fetches :: "trace \<Rightarrow> string list" where
  "fetches [] = []"
| "fetches (Fetch u # w) = u # fetches w"
| "fetches (e # w) = fetches w"

subsection \<open>Concrete runs\<close>

text \<open>A conversion that always throws: the runs below convert strings only.\<close>

definition conv_none :: "jsval \<Rightarrow> string option" where
  "conv_none v = None"

text \<open>The screen after a press whose recording was created as recording 1.\<close>

definition recording_run :: "voice_state \<times> trace" where
  "recording_run = startRecording True True (Some 1) (mount Granted)"

text \<open>The same screen after the release, once the stop call has resolved and
  \<open>setRecording(null)\<close> has run, and then while the upload of \<open>a.wav\<close> is pending.\<close>

definition released_run :: "voice_state \<times> trace" where
  "released_run =
     ((fst recording_run)\<lparr>isRecording := False, recording := None\<rparr>,
      snd recording_run @ [StopAndUnload 1 True])"

definition pending_run :: "voice_state \<times> trace" where
  "pending_run = upload_begin ''a.wav'' released_run"

definition body_rice :: jsval where
  "body_rice = JObj [(''transcription'', JStr ''add five kg rice''),
     (''response'', JStr ''Added 5 kg Rice''), (''intent'', JStr ''ADD''),
     (''item'', JStr ''Rice''), (''qty'', JNum 5), (''unit'', JStr ''kg'')]"

definition body_qty_zero :: jsval where
  "body_qty_zero = JObj [(''response'', JStr ''Added 0 kg Rice''), (''intent'', JStr ''ADD''),
     (''item'', JStr ''Rice''), (''qty'', JNum 0), (''unit'', JStr ''kg'')]"

definition body_error :: jsval where
  "body_error = JObj [(''error'', JStr ''Out of stock'')]"

section \<open>Properties\<close>

lemmas run_defs = recording_run_def released_run_def pending_run_def mount_def
  initial_state_def startRecording_def cleanupAudio_def set_audio_mode_def

lemmas upload_defs = uploadAudio_def upload_begin_def upload_finish_def upload_try_def
  upload_catch_def on_ok_def on_not_ok_def transcription_text_def decision_of_def
  js_toString_def js_or_def own_prop_def

subsection \<open>Traces\<close>

lemma open_handles_append: "open_handles (w @ es) = foldl apply_event (open_handles w) es"
  by (simp add: open_handles_def)

lemma open_after_stop: "h \<notin> open_handles (w @ [StopAndUnload h True])"
  by (simp add: open_handles_append)

lemma fetches_append: "fetches (w @ w') = fetches w @ fetches w'"
  by (induction w rule: fetches.induct) simp_all



subsection \<open>Unmount\<close>

text \<open>The cleanup of the mount effect never calls the platform, whatever the screen holds.\<close>

lemma forceTeardown_identity: "forceTeardown stop_ok sw = sw"
  by (simp add: forceTeardown_def unmount_cleanup_def initial_state_def)

text \<open>
  C1. Unmount is to leave no recording held: a recording held at unmount is released.
  The code does not do this. After mount and one press, recording 1 is held and open;
  the cleanup run at unmount tests the first render's \<open>recording\<close>, which is null, makes no
  call, and recording 1 is still open afterwards.
\<close>

theorem forceTeardown_leaves_recording_open:
  "recording (fst recording_run) = Some 1 \<and>
   open_handles (snd recording_run) = {1} \<and>
   forceTeardown True recording_run = recording_run \<and>
   open_handles (snd (forceTeardown True recording_run)) = {1}"
  by (simp add: forceTeardown_def unmount_cleanup_def open_handles_def run_defs)

subsection \<open>startRecording\<close>

lemma startRecording_processing:
  "isProcessing (fst sw) \<Longrightarrow> startRecording stop_ok mode_ok created sw = sw"
  by (simp add: startRecording_def)

lemma startRecording_replaces:
  assumes "\<not> isProcessing (fst sw)" and "recording (fst sw) = Some h"
  shows "startRecording True mode_ok (Some h') sw =
     ((fst sw)\<lparr>recording := Some h', isRecording := True,
               aiResponse := JStr ''Listening...'', decision := None\<rparr>,
      snd sw @ StopAndUnload h True # SetAudioMode mode_ok #
        (if mode_ok then [] else [ConsoleLog ''Cleanup warning:'']) @
        [CreateRecording (Some h')])"
  using assms by (simp add: startRecording_def cleanupAudio_def set_audio_mode_def)


lemma cleanupAudio_idle:
  "recording (fst sw) = None \<Longrightarrow>
   cleanupAudio stop_ok mode_ok sw =
     (fst sw,
      snd sw @ SetAudioMode mode_ok # (if mode_ok then [] else [ConsoleLog ''Cleanup warning:'']))"
  by (simp add: cleanupAudio_def set_audio_mode_def)

text \<open>
  C3, as stated: a start request while a recording is held changes nothing. It fails on
  the screen that holds recording 1 after a press: a second start request stops and
  unloads recording 1 and creates recording 2, which the screen then holds.
\<close>

theorem start_while_recording_counterexample:
  "recording (fst recording_run) = Some 1 \<and> isRecording (fst recording_run) \<and>
   startRecording True True (Some 2) recording_run \<noteq> recording_run \<and>
   recording (fst (startRecording True True (Some 2) recording_run)) = Some 2 \<and>
   snd (startRecording True True (Some 2) recording_run) =
     snd recording_run @ [StopAndUnload 1 True, SetAudioMode True, CreateRecording (Some 2)]"
  by (simp add: run_defs)

text \<open>
  C3, amended. A start request received while an upload is being processed
  (\<open>isProcessing\<close>) is a no-op. A start request received while a recording \<open>h\<close> is held
  and no upload is being processed is never a no-op. cleanupAudio calls
  \<open>stopAndUnloadAsync\<close> on \<open>h\<close>: when the call resolves, the held handle is cleared and
  \<open>setAudioModeAsync\<close> is called; when it rejects, a warning is logged and \<open>h\<close> stays the held
  handle. Then \<open>createAsync\<close> is called. When it resolves, the new recording becomes the
  held one, isRecording is true and the text is "Listening..."; when it rejects,
  isRecording is false, the text is the microphone error, and the held handle is what
  cleanupAudio left: null after a resolved stop, \<open>h\<close> after a rejected one. The decision
  is cleared in every case.
\<close>

theorem start_guard:
  assumes "isProcessing (fst sw)"
    and "\<not> isProcessing (fst sw')" and "recording (fst sw') = Some h"
  shows "startRecording stop_ok mode_ok created sw = sw \<and>
         startRecording stop_ok' mode_ok' created' sw' =
           ((fst sw')\<lparr>recording :=
                        (case created' of
                           Some h' \<Rightarrow> Some h'
                         | None \<Rightarrow> if stop_ok' then None else Some h),
                      isRecording := (created' \<noteq> None),
                      aiResponse :=
                        JStr (case created' of
                                Some h' \<Rightarrow> ''Listening...''
                              | None \<Rightarrow> cross_mark @ '' Mic Error. Try again.''),
                      decision := None\<rparr>,
            snd sw' @ StopAndUnload h stop_ok' #
              (if stop_ok'
               then SetAudioMode mode_ok' #
                      (if mode_ok' then [] else [ConsoleLog ''Cleanup warning:''])
               else [ConsoleLog ''Cleanup warning:'']) @
              (case created' of
                 Some h' \<Rightarrow> [CreateRecording (Some h')]
               | None \<Rightarrow> [CreateRecording None, ConsoleError ''Failed to start recording''])) \<and>
         startRecording stop_ok' mode_ok' created' sw' \<noteq> sw'"
proof -
  have a: "startRecording stop_ok mode_ok created sw = sw"
    using assms(1) by (rule startRecording_processing)
  have b: "startRecording stop_ok' mode_ok' created' sw' =
           ((fst sw')\<lparr>recording :=
                        (case created' of
                           Some h' \<Rightarrow> Some h'
                         | None \<Rightarrow> if stop_ok' then None else Some h),
                      isRecording := (created' \<noteq> None),
                      aiResponse :=
                        JStr (case created' of
                                Some h' \<Rightarrow> ''Listening...''
                              | None \<Rightarrow> cross_mark @ '' Mic Error. Try again.''),
                      decision := None\<rparr>,
            snd sw' @ StopAndUnload h stop_ok' #
              (if stop_ok'
               then SetAudioMode mode_ok' #
                      (if mode_ok' then [] else [ConsoleLog ''Cleanup warning:''])
               else [ConsoleLog ''Cleanup warning:'']) @
              (case created' of
                 Some h' \<Rightarrow> [CreateRecording (Some h')]
               | None \<Rightarrow> [CreateRecording None, ConsoleError ''Failed to start recording'']))"
    using assms(2,3)
    by (cases created'; cases stop_ok'; cases mode_ok')
       (simp_all add: startRecording_def cleanupAudio_def set_audio_mode_def)
  have "snd (startRecording stop_ok' mode_ok' created' sw') \<noteq> snd sw'"
    by (simp add: b)
  then have c: "startRecording stop_ok' mode_ok' created' sw' \<noteq> sw'"
    by auto
  from a b c show ?thesis by blast
qed

text \<open>
  C3, amended, on the pending screen and on the screen that holds recording 1: with both
  calls resolved recording 2 replaces recording 1; with the stop rejected recording 1 is
  never released and both recordings are open; with the creation rejected no recording
  is held.
\<close>

theorem start_guard_witness:
  "isProcessing (fst pending_run) \<and> \<not> isProcessing (fst recording_run) \<and>
   recording (fst recording_run) = Some 1 \<and>
   startRecording True True (Some 2) pending_run = pending_run \<and>
   recording (fst (startRecording True True (Some 2) recording_run)) = Some 2 \<and>
   open_handles (snd (startRecording True True (Some 2) recording_run)) = {2} \<and>
   recording (fst (startRecording False True (Some 2) recording_run)) = Some 2 \<and>
   open_handles (snd (startRecording False True (Some 2) recording_run)) = {1, 2} \<and>
   recording (fst (startRecording True True None recording_run)) = None \<and>
   open_handles (snd (startRecording True True None recording_run)) = {} \<and>
   recording (fst (startRecording False True None recording_run)) = Some 1"
proof -
  have p: "isProcessing (fst pending_run)"
    by (simp add: pending_run_def upload_begin_def)
  have q: "\<not> isProcessing (fst recording_run)"
    by (simp add: run_defs)
  have r: "recording (fst recording_run) = Some 1"
    by (simp add: run_defs)
  have o: "open_handles (snd recording_run) = {1}"
    by (simp add: run_defs open_handles_def)
  note g = start_guard [OF p q r, of True True "Some 2"]
  from g [of True True "Some 2"] g [of False True "Some 2"] g [of True True None]
    g [of False True None] p q r o
  show ?thesis
    by (simp add: open_handles_append insert_commute)
qed

text \<open>
  C5, as stated: after a denied permission a start request shows a permission notice. It
  fails after \<open>mount Denied\<close>, with createAsync rejected as the platform does without the
  permission: the start request raises no alert, and the screen shows the generic
  microphone error. The only permission notice is the alert raised once at mount.
\<close>

theorem denied_start_counterexample:
  "snd (mount Denied) = [RequestPermissions, permission_notice] \<and>
   display_text (fst (startRecording True True None (mount Denied))) =
     JStr (cross_mark @ '' Mic Error. Try again.'') \<and>
   snd (startRecording True True None (mount Denied)) =
     snd (mount Denied) @
       [SetAudioMode True, CreateRecording None, ConsoleError ''Failed to start recording''] \<and>
   permission_notice \<notin>
     set [SetAudioMode True, CreateRecording None, ConsoleError ''Failed to start recording'']"
  by (simp add: run_defs display_text_def permission_notice_def)

text \<open>
  C5, amended. A denied permission raises one alert, at mount. startRecording does not
  consult the permission: a start request on the idle screen whose createAsync call is
  rejected leaves the screen idle (no recording held, isRecording false, no recording
  opened), clears the decision, raises no permission alert and shows the generic text
  "Mic Error. Try again." after the cross mark.
\<close>

theorem start_rejected_by_platform:
  assumes "\<not> isProcessing (fst sw)" and "recording (fst sw) = None"
  shows "snd (mount Denied) = [RequestPermissions, permission_notice] \<and>
         fst (startRecording stop_ok mode_ok None sw) =
           (fst sw)\<lparr>isRecording := False,
                     aiResponse := JStr (cross_mark @ '' Mic Error. Try again.''),
                     decision := None\<rparr> \<and>
         display_text (fst (startRecording stop_ok mode_ok None sw)) =
           JStr (cross_mark @ '' Mic Error. Try again.'') \<and>
         open_handles (snd (startRecording stop_ok mode_ok None sw)) = open_handles (snd sw) \<and>
         permission_notice \<notin>
           set (drop (length (snd sw)) (snd (startRecording stop_ok mode_ok None sw)))"
  using assms
  by (simp add: startRecording_def cleanupAudio_idle display_text_def mount_def
      open_handles_append permission_notice_def)

text \<open>C5, amended, on the screen mounted without the permission.\<close>

theorem start_rejected_by_platform_witness:
  "\<not> isProcessing (fst (mount Denied)) \<and> recording (fst (mount Denied)) = None \<and>
   recording (fst (startRecording True True None (mount Denied))) = None \<and>
   \<not> isRecording (fst (startRecording True True None (mount Denied))) \<and>
   open_handles (snd (startRecording True True None (mount Denied))) = {}"
proof -
  have a: "\<not> isProcessing (fst (mount Denied))"
    by (simp add: mount_def initial_state_def)
  have b: "recording (fst (mount Denied)) = None"
    by (simp add: mount_def initial_state_def)
  from start_rejected_by_platform [OF a b, of True True] a b
  show ?thesis
    by (simp add: mount_def initial_state_def open_handles_def permission_notice_def)
qed

subsection \<open>uploadAudio\<close>

text \<open>
  C9. When finalization yields no artifact URI (null or undefined), uploadAudio returns at
  once: the state, with isProcessing, aiResponse, transcription and decision, is the one it
  was called in, and the trace has no new event, so no request is made.
\<close>

theorem uploadAudio_no_uri_noop: "uploadAudio conv out None sw = sw"
  by (simp add: uploadAudio_def)

text \<open>The pending screen is where a press and a release stand while the request is
  out: the release finishes from it.\<close>

lemma pending_run_reached:
  "stopRecording conv True (Some ''a.wav'') out recording_run = upload_finish conv out pending_run"
  by (simp add: stopRecording_def uploadAudio_def pending_run_def released_run_def
      recording_run_def startRecording_def mount_def initial_state_def cleanupAudio_def
      set_audio_mode_def)




subsection \<open>uploadAudio: a response with \<open>ok\<close> true\<close>

lemma on_ok_decision:
  assumes "transcription_text conv (JObj kvs) = Some tr"
  shows "on_ok conv (JObj kvs) s =
     Normal (s\<lparr>transcription := tr,
               aiResponse := js_or (own_prop kvs ''response'') (JStr ''No response''),
               decision :=
                 (if truthy (own_prop kvs ''intent'') \<and> truthy (own_prop kvs ''item'') \<and>
                     truthy (own_prop kvs ''qty'') \<and> truthy (own_prop kvs ''unit'')
                  then Some \<lparr> intent = own_prop kvs ''intent'', item = own_prop kvs ''item'',
                              qty = own_prop kvs ''qty'', unit = own_prop kvs ''unit'' \<rparr>
                  else decision s)\<rparr>)"
  using assms by (simp add: on_ok_def decision_of_def)

lemma uploadAudio_ok_state:
  assumes "u \<noteq> []" and "transcription_text conv (JObj kvs) = Some tr"
  shows "fst (uploadAudio conv (Response True (Some (JObj kvs))) (Some u) sw) =
     (fst sw)\<lparr>isProcessing := False,
               transcription := tr,
               aiResponse := js_or (own_prop kvs ''response'') (JStr ''No response''),
               decision :=
                 (if truthy (own_prop kvs ''intent'') \<and> truthy (own_prop kvs ''item'') \<and>
                     truthy (own_prop kvs ''qty'') \<and> truthy (own_prop kvs ''unit'')
                  then Some \<lparr> intent = own_prop kvs ''intent'', item = own_prop kvs ''item'',
                              qty = own_prop kvs ''qty'', unit = own_prop kvs ''unit'' \<rparr>
                  else None)\<rparr>"
  using assms
  by (simp add: uploadAudio_def upload_begin_def upload_finish_def upload_try_def
      upload_catch_def on_ok_decision)

lemma transcription_text_string:
  "own_prop kvs ''transcription'' = JStr t \<Longrightarrow>
   transcription_text conv (JObj kvs) = Some (if t = [] then em_dash else dquote @ t @ dquote)"
  by (simp add: transcription_text_def js_toString_def)

text \<open>
  C2, as stated: the decision is non-null exactly when intent, item, qty and unit are all
  present and non-null. It fails on a body that has all four, with \<open>qty\<close> the number 0:
  the test of the four fields is a truthiness test, 0 is falsy, and the decision is null.
\<close>

theorem decision_qty_zero_counterexample:
  "js_prop body_qty_zero ''intent'' = Some (JStr ''ADD'') \<and>
   js_prop body_qty_zero ''item'' = Some (JStr ''Rice'') \<and>
   js_prop body_qty_zero ''qty'' = Some (JNum 0) \<and>
   js_prop body_qty_zero ''unit'' = Some (JStr ''kg'') \<and>
   decision (fst (uploadAudio conv_none (Response True (Some body_qty_zero)) (Some ''a.wav'')
                    (mount Granted))) = None"
  by (simp add: body_qty_zero_def upload_defs mount_def initial_state_def)

text \<open>
  C2, amended. For every response with \<open>ok\<close> true whose body is an object and whose
  transcription is rendered without an exception, the decision is non-null exactly when
  intent, item, qty and unit are all truthy (present, not null, not false, not 0, not the
  empty string), and it then holds these four values; when one of them is missing, null or
  otherwise falsy, the decision is null.
\<close>

theorem decision_iff_all_truthy:
  assumes "u \<noteq> []" and "transcription_text conv (JObj kvs) = Some tr"
  shows "decision (fst (uploadAudio conv (Response True (Some (JObj kvs))) (Some u) sw)) =
     (if truthy (own_prop kvs ''intent'') \<and> truthy (own_prop kvs ''item'') \<and>
         truthy (own_prop kvs ''qty'') \<and> truthy (own_prop kvs ''unit'')
      then Some \<lparr> intent = own_prop kvs ''intent'', item = own_prop kvs ''item'',
                  qty = own_prop kvs ''qty'', unit = own_prop kvs ''unit'' \<rparr>
      else None)"
  by (simp add: uploadAudio_ok_state [OF assms])

text \<open>C2, amended, on the body that adds 5 kg of rice.\<close>

theorem decision_iff_all_truthy_witness:
  "decision (fst (uploadAudio conv_none (Response True (Some body_rice)) (Some ''a.wav'')
       (mount Granted))) =
     Some \<lparr> intent = JStr ''ADD'', item = JStr ''Rice'', qty = JNum 5, unit = JStr ''kg'' \<rparr>"
proof -
  have u: "''a.wav'' \<noteq> []"
    by simp
  have t: "transcription_text conv_none (JObj [(''transcription'', JStr ''add five kg rice''),
     (''response'', JStr ''Added 5 kg Rice''), (''intent'', JStr ''ADD''),
     (''item'', JStr ''Rice''), (''qty'', JNum 5), (''unit'', JStr ''kg'')]) =
       Some (dquote @ ''add five kg rice'' @ dquote)"
    by (simp add: transcription_text_def js_toString_def own_prop_def)
  from decision_iff_all_truthy [OF u t, of "mount Granted"]
  show ?thesis by (simp add: body_rice_def own_prop_def)
qed

text \<open>
  C7, as stated: the transcription shown equals the body's transcription verbatim. It
  fails on the rice body: the screen stores the transcription between double quotes.
\<close>

theorem transcription_not_verbatim_counterexample:
  "js_prop body_rice ''transcription'' = Some (JStr ''add five kg rice'') \<and>
   transcription (fst (uploadAudio conv_none (Response True (Some body_rice)) (Some ''a.wav'')
       (mount Granted))) = dquote @ ''add five kg rice'' @ dquote \<and>
   transcription (fst (uploadAudio conv_none (Response True (Some body_rice)) (Some ''a.wav'')
       (mount Granted))) \<noteq> ''add five kg rice''"
  by (simp add: body_rice_def upload_defs mount_def initial_state_def dquote_def)

text \<open>
  C7, amended. For every response with \<open>ok\<close> true whose body is an object with string
  fields transcription and response, the response text shown is the body's response
  unchanged when it is non-empty and "No response" when it is empty, and the transcription
  shown is the body's transcription between double quotes when it is non-empty and a dash
  when it is empty.
\<close>

theorem success_shows_fields:
  assumes "u \<noteq> []"
    and "own_prop kvs ''transcription'' = JStr t"
    and "own_prop kvs ''response'' = JStr r"
  shows "transcription (fst (uploadAudio conv (Response True (Some (JObj kvs))) (Some u) sw)) =
           (if t = [] then em_dash else dquote @ t @ dquote) \<and>
         aiResponse (fst (uploadAudio conv (Response True (Some (JObj kvs))) (Some u) sw)) =
           JStr (if r = [] then ''No response'' else r)"
  using assms(3)
  by (simp add: uploadAudio_ok_state [OF assms(1) transcription_text_string [OF assms(2)]]
      js_or_def)

text \<open>C7, amended, on the rice body.\<close>

theorem success_shows_fields_witness:
  "transcription (fst (uploadAudio conv_none (Response True (Some body_rice)) (Some ''a.wav'')
       (mount Granted))) = dquote @ ''add five kg rice'' @ dquote \<and>
   aiResponse (fst (uploadAudio conv_none (Response True (Some body_rice)) (Some ''a.wav'')
       (mount Granted))) = JStr ''Added 5 kg Rice''"
proof -
  have u: "''a.wav'' \<noteq> []"
    by simp
  have t: "own_prop [(''transcription'', JStr ''add five kg rice''),
     (''response'', JStr ''Added 5 kg Rice''), (''intent'', JStr ''ADD''),
     (''item'', JStr ''Rice''), (''qty'', JNum 5), (''unit'', JStr ''kg'')] ''transcription'' =
       JStr ''add five kg rice''"
    by (simp add: own_prop_def)
  have r: "own_prop [(''transcription'', JStr ''add five kg rice''),
     (''response'', JStr ''Added 5 kg Rice''), (''intent'', JStr ''ADD''),
     (''item'', JStr ''Rice''), (''qty'', JNum 5), (''unit'', JStr ''kg'')] ''response'' =
       JStr ''Added 5 kg Rice''"
    by (simp add: own_prop_def)
  from success_shows_fields [OF u t r, of conv_none "mount Granted"]
  show ?thesis by (simp add: body_rice_def)
qed

subsection \<open>uploadAudio: a response with \<open>ok\<close> false\<close>

lemma on_not_ok_string:
  "own_prop kvs ''error'' = JStr m \<Longrightarrow>
   on_not_ok conv (JObj kvs) s =
     Normal (s\<lparr>aiResponse :=
       JStr (cross_mark @ '' Error: '' @ (if m = [] then ''Unknown error'' else m))\<rparr>)"
  by (simp add: on_not_ok_def js_or_def js_toString_def)

lemma on_not_ok_falsy:
  "\<not> truthy (own_prop kvs ''error'') \<Longrightarrow>
   on_not_ok conv (JObj kvs) s =
     Normal (s\<lparr>aiResponse := JStr (cross_mark @ '' Error: Unknown error'')\<rparr>)"
  by (simp add: on_not_ok_def js_or_def js_toString_def)

lemma uploadAudio_not_ok:
  assumes "u \<noteq> []"
    and "on_not_ok conv data
           ((fst sw)\<lparr>isProcessing := True, aiResponse := JStr ''Processing...'',
                     decision := None\<rparr>) = Normal s'"
  shows "uploadAudio conv (Response False (Some data)) (Some u) sw =
           (s'\<lparr>isProcessing := False\<rparr>, snd sw @ [Fetch u])"
  using assms
  by (simp add: uploadAudio_def upload_begin_def upload_finish_def upload_try_def
      upload_catch_def)

text \<open>
  C8, as stated: every response with \<open>ok\<close> false is reported as a server error, with the
  server's message as the response text. It fails on a response with \<open>ok\<close> false whose
  body is not JSON: \<open>response.json()\<close> throws, the \<open>catch\<close> block runs, and the screen
  ends exactly as after a network failure, showing "Could not connect to server.". And
  when the body carries the error "Out of stock", the text shown is not that message but
  the cross mark and "Error: " followed by it.
\<close>

theorem non_ok_not_json_counterexample:
  "aiResponse (fst (uploadAudio conv_none (Response False None) (Some ''a.wav'')
       (mount Granted))) = JStr (cross_mark @ '' Could not connect to server.'') \<and>
   uploadAudio conv_none (Response False None) (Some ''a.wav'') (mount Granted) =
     uploadAudio conv_none NetworkFailure (Some ''a.wav'') (mount Granted) \<and>
   aiResponse (fst (uploadAudio conv_none (Response False (Some body_error)) (Some ''a.wav'')
       (mount Granted))) = JStr (cross_mark @ '' Error: Out of stock'') \<and>
   aiResponse (fst (uploadAudio conv_none (Response False (Some body_error)) (Some ''a.wav'')
       (mount Granted))) \<noteq> JStr ''Out of stock''"
  by (simp add: body_error_def upload_defs mount_def initial_state_def cross_mark_def)

text \<open>
  C8, amended. For every response with \<open>ok\<close> false whose body is a JSON object, the
  response text shown is the cross mark and "Error: " followed by the body's error
  message when that is a non-empty string, and followed by "Unknown error" when the error
  is missing, null or otherwise falsy; the decision is null, the transcription, the held
  recording and isRecording are as before the upload, isProcessing is false again, and one
  request was made.
\<close>

theorem non_ok_shows_error:
  assumes "u \<noteq> []"
    and "own_prop kvs ''error'' = JStr m" and "m \<noteq> []"
    and "\<not> truthy (own_prop kvs' ''error'')"
  shows "uploadAudio conv (Response False (Some (JObj kvs))) (Some u) sw =
           ((fst sw)\<lparr>isProcessing := False, aiResponse := JStr (cross_mark @ '' Error: '' @ m),
                     decision := None\<rparr>, snd sw @ [Fetch u]) \<and>
         uploadAudio conv (Response False (Some (JObj kvs'))) (Some u) sw =
           ((fst sw)\<lparr>isProcessing := False,
                     aiResponse := JStr (cross_mark @ '' Error: Unknown error''),
                     decision := None\<rparr>, snd sw @ [Fetch u])"
  using assms(3)
  by (simp add: uploadAudio_not_ok [OF assms(1) on_not_ok_string [OF assms(2)]]
      uploadAudio_not_ok [OF assms(1) on_not_ok_falsy [OF assms(4)]])

text \<open>C8, amended, on the body with the error "Out of stock" and on the empty object.\<close>

theorem non_ok_shows_error_witness:
  "uploadAudio conv_none (Response False (Some body_error)) (Some ''a.wav'') (mount Granted) =
     (initial_state\<lparr>aiResponse := JStr (cross_mark @ '' Error: Out of stock'')\<rparr>,
      [RequestPermissions, Fetch ''a.wav'']) \<and>
   uploadAudio conv_none (Response False (Some (JObj []))) (Some ''a.wav'') (mount Granted) =
     (initial_state\<lparr>aiResponse := JStr (cross_mark @ '' Error: Unknown error'')\<rparr>,
      [RequestPermissions, Fetch ''a.wav''])"
proof -
  have u: "''a.wav'' \<noteq> []"
    by simp
  have e: "own_prop [(''error'', JStr ''Out of stock'')] ''error'' = JStr ''Out of stock''"
    by (simp add: own_prop_def)
  have m: "''Out of stock'' \<noteq> []"
    by simp
  have n: "\<not> truthy (own_prop [] ''error'')"
    by (simp add: own_prop_def)
  from non_ok_shows_error [OF u e m n, of conv_none "mount Granted"]
  show ?thesis by (simp add: body_error_def mount_def initial_state_def)
qed

subsection \<open>stopRecording\<close>

lemma stopRecording_idle:
  "recording (fst sw) = None \<Longrightarrow> stopRecording conv stop_ok uri out sw = sw"
  by (simp add: stopRecording_def)

text \<open>What one release adds to the trace, when a recording is held.\<close>

lemma stopRecording_trace:
  assumes "recording (fst sw) = Some h"
  shows "\<exists>es. snd (stopRecording conv stop_ok uri out sw) = snd sw @ es \<and>
           (es = [StopAndUnload h False, ConsoleError ''Stop error:''] \<or>
            es = [StopAndUnload h True] \<or>
            (\<exists>u. es = [StopAndUnload h True, Fetch u]) \<or>
            (\<exists>u. es = [StopAndUnload h True, Fetch u, ConsoleError ''Upload failed:'']))"
  using assms
  by (auto simp: stopRecording_def uploadAudio_def upload_begin_def upload_finish_def Let_def
      upload_catch_def split: option.splits completion.splits)

text \<open>
  C6. In every release, the stop-and-unload call on the held recording has completed
  before the artifact goes to the uploader: whenever the release issues a request, the
  events of this release before the request contain the resolved stop of the recording,
  and the recording is not open at the moment of the request.
\<close>

theorem stop_completes_before_upload:
  assumes "recording (fst sw) = Some h"
    and "snd (stopRecording conv stop_ok uri out sw) = snd sw @ pre @ Fetch u # post"
  shows "StopAndUnload h True \<in> set pre \<and> h \<notin> open_handles (snd sw @ pre)"
proof -
  from stopRecording_trace [OF assms(1), of conv stop_ok uri out] assms(2)
  have "pre = [StopAndUnload h True]"
    by (auto simp: append_eq_Cons_conv Cons_eq_append_conv)
  then show ?thesis by (simp add: open_after_stop)
qed

text \<open>C6 on a press and release with a successful upload: recording 1 is open before the
  release and closed when the request is made.\<close>

theorem stop_completes_before_upload_witness:
  "recording (fst recording_run) = Some 1 \<and>
   snd (stopRecording conv_none True (Some ''a.wav'') (Response True (Some body_rice))
          recording_run) =
     snd recording_run @ [StopAndUnload 1 True] @ Fetch ''a.wav'' # [] \<and>
   1 \<in> open_handles (snd recording_run) \<and>
   1 \<notin> open_handles (snd recording_run @ [StopAndUnload 1 True])"
proof -
  have r: "recording (fst recording_run) = Some 1"
    by (simp add: run_defs)
  have t: "snd (stopRecording conv_none True (Some ''a.wav'') (Response True (Some body_rice))
                 recording_run) =
     snd recording_run @ [StopAndUnload 1 True] @ Fetch ''a.wav'' # []"
    by (simp add: run_defs stopRecording_def upload_defs body_rice_def)
  have o: "1 \<in> open_handles (snd recording_run)"
    by (simp add: run_defs open_handles_def)
  from stop_completes_before_upload [OF r t] r t o show ?thesis by simp
qed

text \<open>
  C10. When the stop-and-unload call throws during stopRecording, no upload is attempted
  (the trace gains the failed stop and the console message, and no request), the held
  recording is reset to null, and the response text, the decision, the transcription and
  isProcessing are as before.
\<close>

theorem stop_failure_discards:
  assumes "recording (fst sw) = Some h"
  shows "recording (fst (stopRecording conv False uri out sw)) = None \<and>
         \<not> isRecording (fst (stopRecording conv False uri out sw)) \<and>
         snd (stopRecording conv False uri out sw) =
           snd sw @ [StopAndUnload h False, ConsoleError ''Stop error:''] \<and>
         fetches (snd (stopRecording conv False uri out sw)) = fetches (snd sw) \<and>
         aiResponse (fst (stopRecording conv False uri out sw)) = aiResponse (fst sw) \<and>
         decision (fst (stopRecording conv False uri out sw)) = decision (fst sw) \<and>
         transcription (fst (stopRecording conv False uri out sw)) = transcription (fst sw) \<and>
         isProcessing (fst (stopRecording conv False uri out sw)) = isProcessing (fst sw)"
  using assms by (simp add: stopRecording_def fetches_append)

text \<open>C10 on a press followed by a release whose stop call throws.\<close>

theorem stop_failure_discards_witness:
  "recording (fst recording_run) = Some 1 \<and>
   recording (fst (stopRecording conv_none False (Some ''a.wav'') NetworkFailure
                     recording_run)) = None \<and>
   fetches (snd (stopRecording conv_none False (Some ''a.wav'') NetworkFailure
                   recording_run)) = [] \<and>
   aiResponse (fst (stopRecording conv_none False (Some ''a.wav'') NetworkFailure
                      recording_run)) = JStr ''Listening...''"
proof -
  have r: "recording (fst recording_run) = Some 1"
    by (simp add: run_defs)
  from stop_failure_discards [OF r, of conv_none "Some ''a.wav''" NetworkFailure] r
  show ?thesis by (simp add: run_defs)
qed

end
